theory Spec2Isabelle
  imports Complex_Main
begin

section \<open>Python values, strings and files\<close>

text \<open>
  Every raise and every \<^verbatim>\<open>sys.exit\<close> of the source is a value of \<open>error\<close>; a function
  that can fail returns \<open>error + 'a\<close> with \<open>Inl\<close> for the failure. The two
  \<^verbatim>\<open>sys.exit\<close> calls of \<^verbatim>\<open>reader_ascii.py\<close> carry the two numbers their message is
  formatted from.
\<close>

datatype error =
    FileNotFoundError
  | AttributeError
  | ValueError
  | IndexError
  | KeyError
  | TypeError
  | ZeroDivisionError
  | NotImplementedError
  | SystemExit_count_mismatch nat nat
  | SystemExit_exhausted nat nat

text \<open>
  A file is the list of lines that \<^verbatim>\<open>readlines()\<close> (or iterating the file object) returns,
  each with its line terminator. The file system holds regular files only; the empty path
  names nothing.
\<close>

type_synonym filesystem = "string \<rightharpoonup> string list"

definition path_exists :: "filesystem \<Rightarrow> string \<Rightarrow> bool" where
  "path_exists fs p = (p \<noteq> [] \<and> fs p \<noteq> None)"

definition open_file :: "filesystem \<Rightarrow> string \<Rightarrow> error + string list" where
  "open_file fs p =
     (if p = [] then Inl FileNotFoundError
      else case fs p of None \<Rightarrow> Inl FileNotFoundError | Some ls \<Rightarrow> Inr ls)"

text \<open>\<^verbatim>\<open>s.startswith(p)\<close> and \<^verbatim>\<open>p in s\<close> on strings.\<close>

fun startswith :: "string \<Rightarrow> string \<Rightarrow> bool" where
  "startswith s [] = True"
| "startswith [] (p # ps) = False"
| "startswith (c # cs) (p # ps) = (c = p \<and> startswith cs ps)"

fun contains :: "string \<Rightarrow> string \<Rightarrow> bool" where
  "contains sub [] = (sub = [])"
| "contains sub (c # cs) = (startswith (c # cs) sub \<or> contains sub cs)"

text \<open>
  \<^verbatim>\<open>s.split()\<close> with no argument: the maximal runs of non-whitespace characters. The
  whitespace characters are the ASCII ones of \<^verbatim>\<open>str.isspace\<close>: codes 9 to 13 and 28 to 32.
\<close>

definition is_space :: "char \<Rightarrow> bool" where
  "is_space c = (let n = (of_char c :: nat) in (9 \<le> n \<and> n \<le> 13) \<or> (28 \<le> n \<and> n \<le> 32))"

fun split_acc :: "string \<Rightarrow> string \<Rightarrow> string list" where
  "split_acc tok [] = (if tok = [] then [] else [rev tok])"
| "split_acc tok (c # cs) =
     (if is_space c then (if tok = [] then split_acc [] cs else rev tok # split_acc [] cs)
      else split_acc (c # tok) cs)"

definition split :: "string \<Rightarrow> string list" where
  "split s = split_acc [] s"

text \<open>\<^verbatim>\<open>s.rstrip('\n')\<close>: every trailing line feed is removed.\<close>

definition rstrip_nl :: "string \<Rightarrow> string" where
  "rstrip_nl s = rev (dropWhile (\<lambda>c. c = CHR 0x0A) (rev s))"

text \<open>
  Python floats are read as real numbers; rounding is not modelled. The conversion
  \<^verbatim>\<open>float(token)\<close> is a parameter \<open>to_float\<close> of every function that converts, with
  \<open>None\<close> for the \<^verbatim>\<open>ValueError\<close> of a token that is not a number.
  \<^verbatim>\<open>np.array(tokens, dtype=float)\<close> converts every token and fails if one of them fails.
\<close>

fun np_array :: "(string \<Rightarrow> real option) \<Rightarrow> string list \<Rightarrow> real list option" where
  "np_array to_float [] = Some []"
| "np_array to_float (t # ts) =
     (case to_float t of
        None \<Rightarrow> None
      | Some x \<Rightarrow> (case np_array to_float ts of None \<Rightarrow> None | Some xs \<Rightarrow> Some (x # xs)))"

text \<open>
  The conversion used in the worked examples: plain unsigned decimal literals such as
  \<^verbatim>\<open>12\<close> and \<^verbatim>\<open>3.02\<close>. It is one possible value of the parameter \<open>to_float\<close>, not a model
  of everything \<^verbatim>\<open>float\<close> accepts.
\<close>

fun digits_value :: "nat \<Rightarrow> string \<Rightarrow> nat option" where
  "digits_value acc [] = Some acc"
| "digits_value acc (c # cs) =
     (let n = (of_char c :: nat)
      in if 48 \<le> n \<and> n \<le> 57 then digits_value (10 * acc + (n - 48)) cs else None)"

definition decimal_literal :: "string \<Rightarrow> real option" where
  "decimal_literal s =
     (let ip = takeWhile (\<lambda>c. c \<noteq> CHR ''.'') s;
          fp = drop 1 (dropWhile (\<lambda>c. c \<noteq> CHR ''.'') s)
      in if ip = [] then None
         else case (digits_value 0 ip, digits_value 0 fp) of
                (Some a, Some b) \<Rightarrow> Some (real a + real b / 10 ^ length fp)
              | _ \<Rightarrow> None)"

section \<open>The ASCII reader (\<^verbatim>\<open>reader_ascii.py\<close>)\<close>

text \<open>
  An event under construction is \<^verbatim>\<open>None\<close> before the first marker line and a list of
  particle arrays after it. \<^verbatim>\<open>if event:\<close> is Python truthiness: \<^verbatim>\<open>None\<close> and the empty
  list are both false.
\<close>

type_synonym event = "real list list option"

definition truthy_event :: "event \<Rightarrow> bool" where
  "truthy_event ev = (case ev of None \<Rightarrow> False | Some ps \<Rightarrow> ps \<noteq> [])"

text \<open>
  The line loop of \<^verbatim>\<open>parse_event\<close>, with its two variables \<^verbatim>\<open>event_list\<close> and \<^verbatim>\<open>event\<close>.
  On a non-marker line \<^verbatim>\<open>event.append\<close> is looked up before its argument is evaluated,
  so the \<^verbatim>\<open>AttributeError\<close> of \<^verbatim>\<open>None.append\<close> comes before any \<^verbatim>\<open>ValueError\<close>. After
  the loop the event in progress is appended whatever it is.
\<close>

fun parse_lines ::
  "(string \<Rightarrow> real option) \<Rightarrow> string list \<Rightarrow> event list \<Rightarrow> event \<Rightarrow> error + event list" where
  "parse_lines to_float [] event_list event = Inr (event_list @ [event])"
| "parse_lines to_float (line # rest) event_list event =
     (if startswith line ''#'' then
        parse_lines to_float rest
          (if truthy_event event then event_list @ [event] else event_list) (Some [])
      else
        (case event of
           None \<Rightarrow> Inl AttributeError
         | Some ps \<Rightarrow>
             (case np_array to_float (split (rstrip_nl line)) of
                None \<Rightarrow> Inl ValueError
              | Some a \<Rightarrow> parse_lines to_float rest event_list (Some (ps @ [a])))))"

definition parse_event ::
  "(string \<Rightarrow> real option) \<Rightarrow> filesystem \<Rightarrow> string \<Rightarrow> error + event list" where
  "parse_event to_float fs input_file =
     (case open_file fs input_file of
        Inl e \<Rightarrow> Inl e
      | Inr ls \<Rightarrow> parse_lines to_float ls [] None)"

text \<open>
  The reader object. \<open>event_list_partons\<close> is \<^verbatim>\<open>None\<close> when the partons path does not
  exist.
\<close>

record reader_ascii =
  event_list_hadrons :: "event list"
  current_event :: nat
  n_events :: nat
  event_list_partons :: "event list option"

text \<open>
  The constructor \<^verbatim>\<open>ReaderAscii.__init__\<close>. The hadrons file is parsed first, whether or
  not it exists; the partons file only if it exists; the two lengths are compared only if
  both paths exist.
\<close>

definition ReaderAscii ::
  "(string \<Rightarrow> real option) \<Rightarrow> filesystem \<Rightarrow> string \<Rightarrow> string \<Rightarrow> error + reader_ascii" where
  "ReaderAscii to_float fs input_file_hadrons input_file_partons =
     (case parse_event to_float fs input_file_hadrons of
        Inl e \<Rightarrow> Inl e
      | Inr hs \<Rightarrow>
          (case (if path_exists fs input_file_partons
                 then map_sum id Some (parse_event to_float fs input_file_partons)
                 else Inr None) of
             Inl e \<Rightarrow> Inl e
           | Inr ps \<Rightarrow>
               (let r = \<lparr> event_list_hadrons = hs, current_event = 0,
                          n_events = length hs, event_list_partons = ps \<rparr>
                in if path_exists fs input_file_hadrons \<and> path_exists fs input_file_partons
                   then (case ps of
                           None \<Rightarrow> Inl TypeError
                         | Some pl \<Rightarrow>
                             if length hs \<noteq> length pl
                             then Inl (SystemExit_count_mismatch (length hs) (length pl))
                             else Inr r)
                   else Inr r)))"

text \<open>
  The event object \<^verbatim>\<open>EventAscii(event_hadrons, event_partons)\<close>: its second component
  is the parton event of the same index, or the empty string when no partons were loaded.
\<close>

datatype partons = EmptyString | PartonEvent event

datatype event_ascii = EventAscii event partons

text \<open>List indexing with a non-negative index: out of range is an \<^verbatim>\<open>IndexError\<close>.\<close>

definition getitem :: "'a list \<Rightarrow> nat \<Rightarrow> error + 'a" where
  "getitem xs i = (if i < length xs then Inr (xs ! i) else Inl IndexError)"

text \<open>
  \<^verbatim>\<open>next_event\<close>. \<^verbatim>\<open>if self.event_list_partons:\<close> is truthiness again: \<^verbatim>\<open>None\<close> and the
  empty list choose the empty string. When no event is left the source calls
  \<^verbatim>\<open>sys.exit\<close>.
\<close>

definition next_event :: "reader_ascii \<Rightarrow> error + (event_ascii \<times> reader_ascii)" where
  "next_event r =
     (if current_event r < n_events r then
        (let r' = r\<lparr>current_event := current_event r + 1\<rparr>
         in case getitem (event_list_hadrons r') (current_event r' - 1) of
              Inl e \<Rightarrow> Inl e
            | Inr event_hadrons \<Rightarrow>
                (case (case event_list_partons r' of
                         None \<Rightarrow> Inr EmptyString
                       | Some pl \<Rightarrow>
                           if pl = [] then Inr EmptyString
                           else map_sum id PartonEvent (getitem pl (current_event r' - 1))) of
                   Inl e \<Rightarrow> Inl e
                 | Inr event_partons \<Rightarrow> Inr (EventAscii event_hadrons event_partons, r')))
      else Inl (SystemExit_exhausted (current_event r) (n_events r)))"

text \<open>
  Modelled from the spec: the call operation of the reader base class
  (\<^verbatim>\<open>reader_base.py\<close> is not among the sources). The spec says that calling a reader
  with a maximum event count produces a sequence of events, one \<^verbatim>\<open>next_event\<close> per
  requested event. The sequence is given as its trace: \<open>Inr\<close> for a yielded value, and a
  final \<open>Inl\<close> when \<^verbatim>\<open>next_event\<close> raises or exits, which ends the iteration.
\<close>

fun call_reader :: "nat \<Rightarrow> reader_ascii \<Rightarrow> (error + event_ascii) list" where
  "call_reader 0 r = []"
| "call_reader (Suc n) r =
     (case next_event r of Inl e \<Rightarrow> [Inl e] | Inr (ev, r') \<Rightarrow> Inr ev # call_reader n r')"

text \<open>
  What \<^verbatim>\<open>next_event\<close> builds for index \<open>i\<close>, and the relation between the fields of a
  reader that the constructor establishes.
\<close>

definition paired_event :: "reader_ascii \<Rightarrow> nat \<Rightarrow> event_ascii" where
  "paired_event r i =
     EventAscii (event_list_hadrons r ! i)
       (case event_list_partons r of
          None \<Rightarrow> EmptyString
        | Some pl \<Rightarrow> if pl = [] then EmptyString else PartonEvent (pl ! i))"

definition consistent_reader :: "reader_ascii \<Rightarrow> bool" where
  "consistent_reader r =
     (n_events r = length (event_list_hadrons r) \<and>
      (case event_list_partons r of
         None \<Rightarrow> True
       | Some pl \<Rightarrow> pl = [] \<or> length pl = length (event_list_hadrons r)))"

text \<open>
  The spec's words for the events of an input: a marker line begins a new event, and the
  particles of the event are the non-marker lines up to the next marker line or the end of
  the file. \<open>spec_block_sizes n ls\<close> lists the number of particle lines of every block of
  \<open>ls\<close>, where \<open>n\<close> lines of the first block have been read already; an input that
  starts with a marker line \<open>m\<close> and goes on with \<open>ls\<close> has the blocks
  \<open>spec_block_sizes 0 ls\<close>, one for every marker line. The size of an event of the source
  is the number of its particle arrays, if it is a list.
\<close>

fun spec_block_sizes :: "nat \<Rightarrow> string list \<Rightarrow> nat list" where
  "spec_block_sizes n [] = [n]"
| "spec_block_sizes n (line # rest) =
     (if startswith line ''#'' then n # spec_block_sizes 0 rest
      else spec_block_sizes (Suc n) rest)"

definition event_size :: "event \<Rightarrow> nat option" where
  "event_size ev = map_option length ev"

section \<open>Cross-section extraction (\<^verbatim>\<open>cross_section\<close>)\<close>

text \<open>
  The list \<^verbatim>\<open>cross_sections\<close> receives a number in the \<^verbatim>\<open>hepmc\<close> branch
  (\<^verbatim>\<open>cross_sections.append(xsec)\<close>) and the line itself in the \<^verbatim>\<open>dat\<close> branch
  (\<^verbatim>\<open>cross_sections.append(line)\<close>), so an entry is one or the other. In both branches
  the token is indexed and converted before the append, and either step can raise.
  The reader type is the string of the configuration; any other string matches no branch.
\<close>

datatype xsec = Number real | Line string

fun cross_section_lines ::
  "(string \<Rightarrow> real option) \<Rightarrow> string \<Rightarrow> string list \<Rightarrow> xsec list \<Rightarrow> error + xsec list" where
  "cross_section_lines to_float rt [] cross_sections = Inr cross_sections"
| "cross_section_lines to_float rt (line # rest) cross_sections =
     (if rt = ''hepmc'' then
        (if contains ''GenCrossSection'' line then
           (case getitem (split line) 3 of
              Inl e \<Rightarrow> Inl e
            | Inr t \<Rightarrow>
                (case to_float t of
                   None \<Rightarrow> Inl ValueError
                 | Some x \<Rightarrow>
                     cross_section_lines to_float rt rest
                       (cross_sections @ [Number (x / 1000000000)])))
         else cross_section_lines to_float rt rest cross_sections)
      else if rt = ''dat'' then
        (if contains ''sigmaGen'' line then
           (case getitem (split line) 2 of
              Inl e \<Rightarrow> Inl e
            | Inr t \<Rightarrow>
                (case to_float t of
                   None \<Rightarrow> Inl ValueError
                 | Some x \<Rightarrow>
                     cross_section_lines to_float rt rest (cross_sections @ [Line line])))
         else cross_section_lines to_float rt rest cross_sections)
      else cross_section_lines to_float rt rest cross_sections)"

text \<open>
  \<^verbatim>\<open>cross_section\<close>: open the input file again, scan every line, and return
  \<^verbatim>\<open>cross_sections[-1]\<close>, which is an \<^verbatim>\<open>IndexError\<close> on the empty list.
\<close>

definition cross_section ::
  "(string \<Rightarrow> real option) \<Rightarrow> filesystem \<Rightarrow> string \<Rightarrow> string \<Rightarrow> error + xsec" where
  "cross_section to_float fs rt input_file =
     (case open_file fs input_file of
        Inl e \<Rightarrow> Inl e
      | Inr ls \<Rightarrow>
          (case cross_section_lines to_float rt ls [] of
             Inl e \<Rightarrow> Inl e
           | Inr cross_sections \<Rightarrow>
               if cross_sections = [] then Inl IndexError else Inr (last cross_sections)))"

section \<open>The analysis driver (\<^verbatim>\<open>analyze_events_base.py\<close>)\<close>

text \<open>
  Modelled from the spec: the reader of the second wire format
  (\<^verbatim>\<open>reader_hepmc.py\<close> is not among the sources). The spec gives it the contract of every
  reader: a finite sequence of events in file order, and a falsy sentinel, here \<open>None\<close>,
  once the stream is exhausted. The parser of the format is the parameter \<open>parse_hepmc\<close>.
\<close>

record 'e reader_hepmc =
  remaining_events :: "'e list"

definition ReaderHepMC ::
  "(string list \<Rightarrow> 'e list) \<Rightarrow> filesystem \<Rightarrow> string \<Rightarrow> error + 'e reader_hepmc" where
  "ReaderHepMC parse_hepmc fs input_file =
     (case open_file fs input_file of
        Inl e \<Rightarrow> Inl e
      | Inr ls \<Rightarrow> Inr \<lparr> remaining_events = parse_hepmc ls \<rparr>)"

definition hepmc_next_event :: "'e reader_hepmc \<Rightarrow> 'e option \<times> 'e reader_hepmc" where
  "hepmc_next_event r =
     (case remaining_events r of
        [] \<Rightarrow> (None, r)
      | ev # evs \<Rightarrow> (Some ev, r\<lparr>remaining_events := evs\<rparr>))"

text \<open>
  The reader chosen by \<^verbatim>\<open>run_jetscape_analysis\<close>, the events it yields, and one step of
  the iteration \<^verbatim>\<open>for event in self.reader(n_events=...)\<close>: \<open>None\<close> is a yielded value
  for which \<^verbatim>\<open>not event\<close> holds. An \<^verbatim>\<open>EventAscii\<close> object is always truthy.
\<close>

datatype 'e reader = Ascii reader_ascii | HepMC "'e reader_hepmc"

datatype 'e any_event = AsciiEvent event_ascii | HepMCEvent 'e

definition reader_next :: "'e reader \<Rightarrow> error + ('e any_event option \<times> 'e reader)" where
  "reader_next rd =
     (case rd of
        Ascii r \<Rightarrow>
          (case next_event r of
             Inl e \<Rightarrow> Inl e
           | Inr (ev, r') \<Rightarrow> Inr (Some (AsciiEvent ev), Ascii r'))
      | HepMC r \<Rightarrow>
          (case hepmc_next_event r of (ev, r') \<Rightarrow> Inr (map_option HepMCEvent ev, HepMC r')))"

text \<open>
  The collaborators of the driver. The two hooks are the methods a subclass must override;
  they act on the objects of the subclass, of type \<open>'u\<close>. Scaling
  (\<^verbatim>\<open>scale_histograms.scale_histograms\<close>) and merging (the external \<^verbatim>\<open>hadd\<close> command)
  are calls that may fail. In the base class both hooks raise.
\<close>

record ('e, 'u) hooks =
  initialize_user_output_objects :: "'u \<Rightarrow> error + 'u"
  analyze_event :: "'e any_event \<Rightarrow> 'u \<Rightarrow> error + 'u"
  scale_histograms_call :: "string \<Rightarrow> nat \<Rightarrow> error option"
  hadd :: "string \<Rightarrow> error option"

definition base_hooks :: "('e, 'u) hooks" where
  "base_hooks =
     \<lparr> initialize_user_output_objects = (\<lambda>u. Inl NotImplementedError),
       analyze_event = (\<lambda>ev u. Inl NotImplementedError),
       scale_histograms_call = (\<lambda>dir b. None),
       hadd = (\<lambda>dir. None) \<rparr>"

text \<open>
  What \<^verbatim>\<open>write_output_objects\<close> writes into one output file: the two histograms of the
  driver and the objects of the subclass. A histogram is a map from bin number to content.
\<close>

record 'u bin_output =
  out_hNevents :: "nat \<rightharpoonup> nat"
  out_hCrossSection :: "nat \<rightharpoonup> real"
  out_user_objects :: 'u

text \<open>
  The configuration file after loading, with the keys that change the computation. The
  scan dictionary keeps its order: key, label, values. The keys \<^verbatim>\<open>debug_level\<close> and
  \<^verbatim>\<open>progress_bar\<close> only change what is printed.
\<close>

record 'v config =
  cfg_parameter_scan :: "(string \<times> string \<times> 'v list) list"
  cfg_n_event_max :: nat
  cfg_reader :: string
  cfg_scale_histograms :: bool
  cfg_merge_histograms :: bool

text \<open>The attributes of the driver object, and the output files written so far.\<close>

record ('v, 'e, 'u) driver =
  input_dir :: string
  output_dir :: string
  parameter_scan_dict :: "(string \<times> string \<times> 'v list) list"
  pt_hat_bins :: "'v list"
  n_pt_hat_bins :: int
  n_event_max :: nat
  reader_type :: string
  scale_histograms :: bool
  merge_histograms :: bool
  event_id :: nat
  pt_hat_bin :: nat
  output_dir_bin :: string
  input_file :: string
  reader :: "'e reader option"
  hNevents :: "nat \<rightharpoonup> nat"
  hCrossSection :: "nat \<rightharpoonup> real"
  user_objects :: 'u
  files_written :: "string \<rightharpoonup> 'u bin_output"

text \<open>\<^verbatim>\<open>s.endswith("/")\<close>, the trailing slash the source adds, and \<^verbatim>\<open>os.path.join\<close>.\<close>

definition endswith_slash :: "string \<Rightarrow> bool" where
  "endswith_slash s = (s \<noteq> [] \<and> last s = CHR ''/'')"

definition add_slash :: "string \<Rightarrow> string" where
  "add_slash s = (if endswith_slash s then s else s @ ''/'')"

definition path_join :: "string \<Rightarrow> string \<Rightarrow> string" where
  "path_join a b =
     (if startswith b ''/'' then b
      else if a = [] \<or> endswith_slash a then a @ b
      else a @ ''/'' @ b)"

text \<open>
  The constructor with \<^verbatim>\<open>initialize_config\<close>. This is the only place where
  \<^verbatim>\<open>event_id\<close> is set to zero.
\<close>

definition AnalyzeJetscapeEvents_Base ::
  "'v config \<Rightarrow> string \<Rightarrow> string \<Rightarrow> 'u \<Rightarrow> error + ('v, 'e, 'u) driver" where
  "AnalyzeJetscapeEvents_Base config input_dir0 output_dir0 u =
     (case map_of (cfg_parameter_scan config) ''pt_hat_bins'' of
        None \<Rightarrow> Inl KeyError
      | Some (label, vals) \<Rightarrow>
          Inr \<lparr> input_dir = add_slash input_dir0,
                output_dir = add_slash output_dir0,
                parameter_scan_dict = cfg_parameter_scan config,
                pt_hat_bins = vals,
                n_pt_hat_bins = int (length vals) - 1,
                n_event_max = cfg_n_event_max config,
                reader_type = (if cfg_reader config = ''ascii'' then ''dat'' else cfg_reader config),
                scale_histograms = cfg_scale_histograms config,
                merge_histograms = cfg_merge_histograms config,
                event_id = 0,
                pt_hat_bin = 0,
                output_dir_bin = [],
                input_file = [],
                reader = None,
                hNevents = Map.empty,
                hCrossSection = Map.empty,
                user_objects = u,
                files_written = Map.empty \<rparr>)"

text \<open>
  \<^verbatim>\<open>initialize_output_objects\<close> makes two fresh histograms and calls the first hook.
\<close>

definition initialize_output_objects ::
  "('e, 'u) hooks \<Rightarrow> ('v, 'e, 'u) driver \<Rightarrow> error + ('v, 'e, 'u) driver" where
  "initialize_output_objects h d =
     (let d1 = d\<lparr>hNevents := Map.empty, hCrossSection := Map.empty\<rparr>
      in case initialize_user_output_objects h (user_objects d1) of
           Inl e \<Rightarrow> Inl e
         | Inr u \<Rightarrow> Inr (d1\<lparr>user_objects := u\<rparr>))"

text \<open>\<^verbatim>\<open>get_event_info\<close>: \<^verbatim>\<open>self.event_id += 1\<close>.\<close>

definition get_event_info :: "'e any_event \<Rightarrow> ('v, 'e, 'u) driver \<Rightarrow> ('v, 'e, 'u) driver" where
  "get_event_info ev d = d\<lparr>event_id := event_id d + 1\<rparr>"

text \<open>
  The event loop of \<^verbatim>\<open>run_jetscape_analysis\<close>, at most \<^verbatim>\<open>n_event_max\<close> iterations:
  \<^verbatim>\<open>break\<close> on a falsy value, otherwise \<^verbatim>\<open>get_event_info\<close> and the second hook.
\<close>

fun event_loop ::
  "('e, 'u) hooks \<Rightarrow> nat \<Rightarrow> ('v, 'e, 'u) driver \<Rightarrow> error + ('v, 'e, 'u) driver" where
  "event_loop h 0 d = Inr d"
| "event_loop h (Suc k) d =
     (case reader d of
        None \<Rightarrow> Inl AttributeError
      | Some rd \<Rightarrow>
          (case reader_next rd of
             Inl e \<Rightarrow> Inl e
           | Inr (None, rd') \<Rightarrow> Inr (d\<lparr>reader := Some rd'\<rparr>)
           | Inr (Some ev, rd') \<Rightarrow>
               (let d1 = get_event_info ev (d\<lparr>reader := Some rd'\<rparr>)
                in case analyze_event h ev (user_objects d1) of
                     Inl e \<Rightarrow> Inl e
                   | Inr u \<Rightarrow> event_loop h k (d1\<lparr>user_objects := u\<rparr>))))"

text \<open>
  \<^verbatim>\<open>write_output_objects\<close>. The histograms hold numbers: \<^verbatim>\<open>SetBinContent\<close> with a
  string is a \<^verbatim>\<open>TypeError\<close> of the binding. The bin that is filled is
  \<^verbatim>\<open>pt_hat_bin + 1\<close>, and the content of \<^verbatim>\<open>hNevents\<close> is \<^verbatim>\<open>self.event_id\<close>.
\<close>

definition write_output_objects ::
  "(string \<Rightarrow> real option) \<Rightarrow> filesystem \<Rightarrow> ('v, 'e, 'u) driver \<Rightarrow> error + ('v, 'e, 'u) driver" where
  "write_output_objects to_float fs d =
     (case cross_section to_float fs (reader_type d) (input_file d) of
        Inl e \<Rightarrow> Inl e
      | Inr (Line l) \<Rightarrow> Inl TypeError
      | Inr (Number xsec) \<Rightarrow>
          (let d1 = d\<lparr>hCrossSection := (hCrossSection d)(pt_hat_bin d + 1 \<mapsto> xsec)\<rparr>;
               d2 = d1\<lparr>hNevents := (hNevents d1)(pt_hat_bin d1 + 1 \<mapsto> event_id d1)\<rparr>;
               outputfilename = path_join (output_dir_bin d2) ''AnalysisResults.root''
           in Inr (d2\<lparr>files_written := (files_written d2)(outputfilename \<mapsto>
                      \<lparr> out_hNevents = hNevents d2,
                        out_hCrossSection = hCrossSection d2,
                        out_user_objects = user_objects d2 \<rparr>)\<rparr>)))"

text \<open>
  \<^verbatim>\<open>run_jetscape_analysis\<close>. The ASCII reader is built from the input file alone, so its
  partons path is the empty string. With a reader type that is neither \<^verbatim>\<open>hepmc\<close> nor
  \<^verbatim>\<open>dat\<close> the attribute \<^verbatim>\<open>reader\<close> keeps its old value, and using it before it was
  ever set is an \<^verbatim>\<open>AttributeError\<close>.
\<close>

definition run_jetscape_analysis ::
  "('e, 'u) hooks \<Rightarrow> (string \<Rightarrow> real option) \<Rightarrow> (string list \<Rightarrow> 'e list) \<Rightarrow> filesystem \<Rightarrow>
   ('v, 'e, 'u) driver \<Rightarrow> error + ('v, 'e, 'u) driver" where
  "run_jetscape_analysis h to_float parse_hepmc fs d =
     (case (if reader_type d = ''hepmc''
            then map_sum id (\<lambda>r. Some (HepMC r)) (ReaderHepMC parse_hepmc fs (input_file d))
            else if reader_type d = ''dat''
            then map_sum id (\<lambda>r. Some (Ascii r)) (ReaderAscii to_float fs (input_file d) [])
            else Inr (reader d)) of
        Inl e \<Rightarrow> Inl e
      | Inr rd \<Rightarrow>
          (case initialize_output_objects h (d\<lparr>reader := rd\<rparr>) of
             Inl e \<Rightarrow> Inl e
           | Inr d1 \<Rightarrow>
               (case reader d1 of
                  None \<Rightarrow> Inl AttributeError
                | Some r \<Rightarrow>
                    (case event_loop h (n_event_max d1) d1 of
                       Inl e \<Rightarrow> Inl e
                     | Inr d2 \<Rightarrow> write_output_objects to_float fs d2))))"

section \<open>Grid enumeration and the main loop (\<^verbatim>\<open>analyze_jetscape_events\<close>)\<close>

text \<open>\<^verbatim>\<open>str\<close> of a non-negative integer.\<close>

function str_nat :: "nat \<Rightarrow> string" where
  "str_nat n =
     (if n < 10 then [''0123456789'' ! n]
      else str_nat (n div 10) @ [''0123456789'' ! (n mod 10)])"
  by pat_completeness auto
termination
  by (relation "measure id") auto

declare str_nat.simps [simp del]

text \<open>
  The slice \<^verbatim>\<open>xs[:-n]\<close> for \<open>n \<ge> 0\<close>. For \<open>n = 0\<close> it is \<^verbatim>\<open>xs[:0]\<close>, the empty list.
\<close>

definition slice_to_minus :: "nat \<Rightarrow> 'a list \<Rightarrow> 'a list" where
  "slice_to_minus n xs = (if n = 0 then [] else take (length xs - n) xs)"

text \<open>
  The combinations that the main loop visits: \<^verbatim>\<open>itertools.product\<close> over the value lists
  in dictionary order, without its last \<^verbatim>\<open>n_combinations_per_pthat\<close> elements. The
  division by the number of pt-hat edges raises when there is no edge.
\<close>

definition parameter_combinations ::
  "('v, 'e, 'u) driver \<Rightarrow> error + (nat \<times> 'v list list)" where
  "parameter_combinations d =
     (let parameter_values = map (\<lambda>(key, label, vals). vals) (parameter_scan_dict d);
          combinations = product_lists parameter_values
      in if pt_hat_bins d = [] then Inl ZeroDivisionError
         else (let n_combinations_per_pthat = length combinations div length (pt_hat_bins d)
               in Inr (n_combinations_per_pthat,
                       slice_to_minus n_combinations_per_pthat combinations)))"

text \<open>
  The inner loop that builds \<^verbatim>\<open>dir_label\<close>: the bin index for position 0, and
  underscore, label and \<^verbatim>\<open>str(value)\<close> for every other position. \<^verbatim>\<open>str\<close> on a
  configuration value is the parameter \<open>str\<close>.
\<close>

fun dir_label_loop ::
  "('v \<Rightarrow> string) \<Rightarrow> nat \<Rightarrow> string list \<Rightarrow> (nat \<times> 'v) list \<Rightarrow> string \<Rightarrow> error + string" where
  "dir_label_loop str b parameter_labels [] dir_label = Inr dir_label"
| "dir_label_loop str b parameter_labels ((index, v) # rest) dir_label =
     (if index = 0 then dir_label_loop str b parameter_labels rest (dir_label @ str_nat b)
      else (case getitem parameter_labels index of
              Inl e \<Rightarrow> Inl e
            | Inr label \<Rightarrow>
                dir_label_loop str b parameter_labels rest (dir_label @ ''_'' @ label @ str v)))"

text \<open>
  The head of the body of the main loop for one combination: the bin index, the test that
  ends in \<^verbatim>\<open>continue\<close> (the result \<open>None\<close>), and the label.
\<close>

definition grid_point ::
  "('v \<Rightarrow> string) \<Rightarrow> string list \<Rightarrow> nat \<Rightarrow> nat \<Rightarrow> nat \<Rightarrow> 'v list \<Rightarrow> error + (nat \<times> string) option" where
  "grid_point str parameter_labels n_combinations_per_pthat n_edges index parameter_combination =
     (if n_combinations_per_pthat = 0 then Inl ZeroDivisionError
      else (let b = index div n_combinations_per_pthat
            in if int b < int n_edges - 1
               then map_sum id (\<lambda>dir_label. Some (b, dir_label))
                      (dir_label_loop str b parameter_labels (enumerate 0 parameter_combination) [])
               else Inr None))"



text \<open>
  The main loop: for every grid point that is not skipped, the paths of the bin,
  \<^verbatim>\<open>run_jetscape_analysis\<close>, and the scaling call if it is configured.
\<close>

fun bins_loop ::
  "('e, 'u) hooks \<Rightarrow> (string \<Rightarrow> real option) \<Rightarrow> (string list \<Rightarrow> 'e list) \<Rightarrow> filesystem \<Rightarrow>
   ('v \<Rightarrow> string) \<Rightarrow> string list \<Rightarrow> nat \<Rightarrow> (nat \<times> 'v list) list \<Rightarrow>
   ('v, 'e, 'u) driver \<Rightarrow> error + ('v, 'e, 'u) driver" where
  "bins_loop h to_float parse_hepmc fs str labels n [] d = Inr d"
| "bins_loop h to_float parse_hepmc fs str labels n ((index, c) # rest) d =
     (case grid_point str labels n (length (pt_hat_bins d)) index c of
        Inl e \<Rightarrow> Inl e
      | Inr None \<Rightarrow>
          bins_loop h to_float parse_hepmc fs str labels n rest (d\<lparr>pt_hat_bin := index div n\<rparr>)
      | Inr (Some (b, dir_label)) \<Rightarrow>
          (let d1 = d\<lparr>pt_hat_bin := b,
                       output_dir_bin := add_slash (output_dir d @ dir_label),
                       input_file := path_join (input_dir d @ dir_label)
                                       (''test_out.'' @ reader_type d)\<rparr>
           in case run_jetscape_analysis h to_float parse_hepmc fs d1 of
                Inl e \<Rightarrow> Inl e
              | Inr d2 \<Rightarrow>
                  (case (if scale_histograms d2
                         then scale_histograms_call h (output_dir_bin d2) (pt_hat_bin d2)
                         else None) of
                     Some e \<Rightarrow> Inl e
                   | None \<Rightarrow> bins_loop h to_float parse_hepmc fs str labels n rest d2)))"

definition analyze_jetscape_events ::
  "('e, 'u) hooks \<Rightarrow> (string \<Rightarrow> real option) \<Rightarrow> (string list \<Rightarrow> 'e list) \<Rightarrow> filesystem \<Rightarrow>
   ('v \<Rightarrow> string) \<Rightarrow> ('v, 'e, 'u) driver \<Rightarrow> error + ('v, 'e, 'u) driver" where
  "analyze_jetscape_events h to_float parse_hepmc fs str d =
     (case parameter_combinations d of
        Inl e \<Rightarrow> Inl e
      | Inr (n, combinations) \<Rightarrow>
          (case bins_loop h to_float parse_hepmc fs str
                  (map (\<lambda>(key, label, vals). label) (parameter_scan_dict d)) n
                  (enumerate 0 combinations) d of
             Inl e \<Rightarrow> Inl e
           | Inr d' \<Rightarrow>
               (case (if merge_histograms d' then hadd h (output_dir d') else None) of
                  Some e \<Rightarrow> Inl e
                | None \<Rightarrow> Inr d')))"

text \<open>
  The entry point: construct the driver from the configuration and the two directories,
  then run the main loop.
\<close>

definition run_analysis ::
  "('e, 'u) hooks \<Rightarrow> (string \<Rightarrow> real option) \<Rightarrow> (string list \<Rightarrow> 'e list) \<Rightarrow> filesystem \<Rightarrow>
   ('v \<Rightarrow> string) \<Rightarrow> 'v config \<Rightarrow> string \<Rightarrow> string \<Rightarrow> 'u \<Rightarrow> error + ('v, 'e, 'u) driver" where
  "run_analysis h to_float parse_hepmc fs str config input_dir0 output_dir0 u =
     (case AnalyzeJetscapeEvents_Base config input_dir0 output_dir0 u of
        Inl e \<Rightarrow> Inl e
      | Inr d \<Rightarrow> analyze_jetscape_events h to_float parse_hepmc fs str d)"

section \<open>Example inputs\<close>

text \<open>Two matching files of two events each, and a partons file of one event.\<close>

definition fs_pair :: filesystem where
  "fs_pair = [''h'' \<mapsto> [''#\<newline>'', ''1 2\<newline>'', ''#\<newline>'', ''3 4\<newline>''],
              ''p'' \<mapsto> [''#\<newline>'', ''5 6\<newline>'', ''#\<newline>'', ''7 8\<newline>''],
              ''q'' \<mapsto> [''#\<newline>'', ''5 6\<newline>'']]"

text \<open>A file of one event.\<close>

definition fs_one_event :: filesystem where
  "fs_one_event = [''h'' \<mapsto> [''#\<newline>'', ''1 2\<newline>'']]"

text \<open>Two marker lines with nothing between them, then one particle line.\<close>

definition fs_empty_block :: filesystem where
  "fs_empty_block = [''h'' \<mapsto> [''#\<newline>'', ''#\<newline>'', ''1 2\<newline>'']]"

text \<open>Three marker lines; the block of the second one is empty.\<close>

definition fs_three_markers :: filesystem where
  "fs_three_markers =
     [''h'' \<mapsto> [''#\<newline>'', ''1 2\<newline>'', ''#\<newline>'', ''#\<newline>'', ''3 4\<newline>'', ''5 6\<newline>'']]"

text \<open>An empty file, and a file of one particle line without any marker line.\<close>

definition fs_empty_file :: filesystem where
  "fs_empty_file = [''h'' \<mapsto> []]"

definition fs_no_marker :: filesystem where
  "fs_no_marker = [''h'' \<mapsto> [''1 2 3\<newline>'']]"

text \<open>Three cross-section lines in each wire format.\<close>

definition fs_dat :: filesystem where
  "fs_dat = [''test_out.dat'' \<mapsto>
      [''#\<newline>'', ''1 2\<newline>'', ''# sigmaGen 3.1\<newline>'', ''1 2\<newline>'',
       ''# sigmaGen 3.05\<newline>'', ''1 2\<newline>'', ''# sigmaGen 3.02\<newline>'']]"

definition fs_hepmc :: filesystem where
  "fs_hepmc = [''test_out.hepmc'' \<mapsto>
      [''E 1\<newline>'', ''A 0 GenCrossSection 3.1\<newline>'', ''E 2\<newline>'',
       ''A 0 GenCrossSection 3.05\<newline>'', ''E 3\<newline>'', ''A 0 GenCrossSection 3.02\<newline>'']]"

text \<open>
  Configuration values for the examples: integers and strings, with their \<^verbatim>\<open>str\<close>.
\<close>

datatype scalar = IntValue int | StrValue string

fun str_scalar :: "scalar \<Rightarrow> string" where
  "str_scalar (IntValue i) = (if i < 0 then ''-'' @ str_nat (nat (- i)) else str_nat (nat i))"
| "str_scalar (StrValue s) = s"


text \<open>
  A run over two pt-hat bins in the second wire format: two events in the file of bin 0,
  one event in the file of bin 1. In the example every line that starts with \<^verbatim>\<open>E\<close> and
  a space is one event, and the subclass counts the events it is given.
\<close>

definition config_two_bins :: "scalar config" where
  "config_two_bins =
     \<lparr> cfg_parameter_scan = [(''pt_hat_bins'', ''pt_hat_bin'', [IntValue 10, IntValue 20, IntValue 30])],
       cfg_n_event_max = 5, cfg_reader = ''hepmc'',
       cfg_scale_histograms = False, cfg_merge_histograms = False \<rparr>"

definition hepmc_event_lines :: "string list \<Rightarrow> string list" where
  "hepmc_event_lines ls = filter (\<lambda>l. startswith l ''E '') ls"

definition counting_hooks :: "(string, nat) hooks" where
  "counting_hooks =
     \<lparr> initialize_user_output_objects = (\<lambda>u. Inr 0),
       analyze_event = (\<lambda>ev u. Inr (u + 1)),
       scale_histograms_call = (\<lambda>dir b. None),
       hadd = (\<lambda>dir. None) \<rparr>"

definition fs_two_bins :: filesystem where
  "fs_two_bins =
     [''in/0/test_out.hepmc'' \<mapsto>
        [''E 1\<newline>'', ''E 2\<newline>'', ''A 0 GenCrossSection 3.1\<newline>''],
      ''in/1/test_out.hepmc'' \<mapsto>
        [''E 1\<newline>'', ''A 0 GenCrossSection 2.5\<newline>'']]"

text \<open>The content of bin \<open>b\<close> of \<^verbatim>\<open>hNevents\<close> in an output file.\<close>

definition persisted_event_count :: "('v, 'e, 'u) driver \<Rightarrow> string \<Rightarrow> nat \<Rightarrow> nat option" where
  "persisted_event_count d file b =
     (case files_written d file of None \<Rightarrow> None | Some out \<Rightarrow> out_hNevents out b)"

section \<open>Properties of the ASCII reader\<close>

lemmas eval_defs = ReaderAscii_def path_exists_def parse_event_def open_file_def truthy_event_def
  split_def rstrip_nl_def is_space_def decimal_literal_def next_event_def getitem_def

lemma parse_lines_length:
  "parse_lines tf ls el ev = Inr evs \<Longrightarrow> length el < length evs"
proof (induction ls arbitrary: el ev)
  case Nil
  then show ?case by auto
next
  case (Cons l ls)
  then show ?case
    by (fastforce split: if_splits option.splits)
qed

lemma parse_event_length: "parse_event tf fs f = Inr evs \<Longrightarrow> 1 \<le> length evs"
  by (auto simp: parse_event_def Suc_le_eq split: sum.splits dest!: parse_lines_length)

lemma parse_lines_no_marker:
  "ls \<noteq> [] \<Longrightarrow> \<forall>l\<in>set ls. \<not> startswith l ''#'' \<Longrightarrow> parse_lines tf ls el None = Inl AttributeError"
  by (cases ls) auto

lemma next_event_consistent:
  assumes "consistent_reader r" and "current_event r < n_events r"
  shows "next_event r =
           Inr (paired_event r (current_event r), r\<lparr>current_event := Suc (current_event r)\<rparr>)"
  using assms
  by (auto simp: next_event_def consistent_reader_def paired_event_def getitem_def Let_def
           split: option.splits)

lemma next_event_exhausted:
  "\<not> current_event r < n_events r \<Longrightarrow>
   next_event r = Inl (SystemExit_exhausted (current_event r) (n_events r))"
  by (simp add: next_event_def)

text \<open>
  The whole trace of a call: the events from the current index on, as long as there are
  events and requests, and then the exit of \<^verbatim>\<open>next_event\<close> if a request is left.
\<close>

lemma call_reader_trace:
  assumes "consistent_reader r" and "current_event r \<le> n_events r"
  shows "call_reader k r =
           map (\<lambda>i. Inr (paired_event r i))
             [current_event r ..< min (current_event r + k) (n_events r)]
           @ (if n_events r < current_event r + k
              then [Inl (SystemExit_exhausted (n_events r) (n_events r))] else [])"
  using assms
proof (induction k arbitrary: r)
  case 0
  then show ?case by simp
next
  case (Suc k)
  show ?case
  proof (cases "current_event r < n_events r")
    case True
    let ?r' = "r\<lparr>current_event := Suc (current_event r)\<rparr>"
    have c: "consistent_reader ?r'"
      using Suc.prems(1) by (auto simp: consistent_reader_def split: option.splits)
    have le: "current_event ?r' \<le> n_events ?r'"
      using True by simp
    have pe: "paired_event ?r' = paired_event r"
      by (simp add: paired_event_def fun_eq_iff)
    have "call_reader (Suc k) r = Inr (paired_event r (current_event r)) # call_reader k ?r'"
      using next_event_consistent [OF Suc.prems(1) True] by simp
    also have "call_reader k ?r' =
           map (\<lambda>i. Inr (paired_event r i))
             [Suc (current_event r) ..< min (Suc (current_event r) + k) (n_events r)]
           @ (if n_events r < Suc (current_event r) + k
              then [Inl (SystemExit_exhausted (n_events r) (n_events r))] else [])"
      using Suc.IH [OF c le] by (simp add: pe)
    finally show ?thesis
      using True by (simp add: upt_conv_Cons)
  next
    case False
    then have eq: "current_event r = n_events r"
      using Suc.prems(2) by simp
    show ?thesis
      using next_event_exhausted [OF False] by (simp add: eq)
  qed
qed

lemma map_nth_upt_take: "map (\<lambda>i. f (xs ! i)) [0..<min k (length xs)] = map f (take k xs)"
  by (simp add: list_eq_iff_nth_eq)


text \<open>
  Claim C10, as the code has it. When \<^verbatim>\<open>parse_event\<close> returns, the list it returns has at
  least one element, since the event in progress is appended after the line loop whatever
  it is. For an empty file the list is \<^verbatim>\<open>[None]\<close>, and the reader built from it reports
  \<^verbatim>\<open>n_events = 1\<close>. A file that is not empty and has no marker line does not give
  \<^verbatim>\<open>[None]\<close>: its first line reaches \<^verbatim>\<open>event.append\<close> with \<^verbatim>\<open>event = None\<close>, and
  \<^verbatim>\<open>parse_event\<close> raises \<^verbatim>\<open>AttributeError\<close>.
\<close>

theorem parse_event_at_least_one:
  assumes "open_file fs f = Inr ls"
  shows "(\<forall>evs. parse_event tf fs f = Inr evs \<longrightarrow> 1 \<le> length evs)
       \<and> (ls = [] \<longrightarrow> parse_event tf fs f = Inr [None]
                    \<and> map_sum id n_events (ReaderAscii tf fs f []) = Inr 1)
       \<and> (ls \<noteq> [] \<and> (\<forall>l\<in>set ls. \<not> startswith l ''#'') \<longrightarrow>
            parse_event tf fs f = Inl AttributeError)"
proof (intro conjI allI impI)
  fix evs assume "parse_event tf fs f = Inr evs"
  then show "1 \<le> length evs" by (rule parse_event_length)
next
  assume "ls = []"
  with assms show "parse_event tf fs f = Inr [None]"
    by (simp add: parse_event_def)
next
  assume "ls = []"
  with assms have "parse_event tf fs f = Inr [None]"
    by (simp add: parse_event_def)
  then show "map_sum id n_events (ReaderAscii tf fs f []) = Inr 1"
    by (simp add: ReaderAscii_def path_exists_def)
next
  assume "ls \<noteq> [] \<and> (\<forall>l\<in>set ls. \<not> startswith l ''#'')"
  with assms show "parse_event tf fs f = Inl AttributeError"
    by (simp add: parse_event_def parse_lines_no_marker)
qed

text \<open>
  The theorem at the empty file, and at a file of two events, where the list returned has
  two elements.
\<close>

theorem parse_event_at_least_one_witness:
  "open_file fs_empty_file ''h'' = Inr []
   \<and> parse_event decimal_literal fs_empty_file ''h'' = Inr [None]
   \<and> map_sum id n_events (ReaderAscii decimal_literal fs_empty_file ''h'' []) = Inr 1
   \<and> open_file fs_pair ''h'' = Inr [''#\<newline>'', ''1 2\<newline>'', ''#\<newline>'', ''3 4\<newline>'']
   \<and> parse_event decimal_literal fs_pair ''h'' = Inr [Some [[1, 2]], Some [[3, 4]]]
   \<and> (1::nat) \<le> length [Some [[1, 2 :: real]], Some [[3, 4]]]"
proof -
  have o: "open_file fs_empty_file ''h'' = Inr []"
    by (simp add: fs_empty_file_def open_file_def)
  have o2: "open_file fs_pair ''h'' = Inr [''#\<newline>'', ''1 2\<newline>'', ''#\<newline>'', ''3 4\<newline>'']"
    by (simp add: fs_pair_def open_file_def)
  have p2: "parse_event decimal_literal fs_pair ''h'' = Inr [Some [[1, 2]], Some [[3, 4]]]"
    by (simp add: fs_pair_def eval_defs)
  show ?thesis
    using parse_event_at_least_one [OF o, of decimal_literal]
      parse_event_at_least_one [OF o2, of decimal_literal] o o2 p2
    by simp
qed

text \<open>
  Claim C10 as stated fails at a readable file that consists of one particle line: it has no
  marker line, and \<^verbatim>\<open>parse_event\<close> raises instead of returning \<^verbatim>\<open>[None]\<close>.
\<close>

theorem parse_event_no_marker_counterexample:
  "open_file fs_no_marker ''h'' = Inr [''1 2 3\<newline>'']
   \<and> \<not> startswith ''1 2 3\<newline>'' ''#''
   \<and> parse_event decimal_literal fs_no_marker ''h'' = Inl AttributeError
   \<and> parse_event decimal_literal fs_no_marker ''h'' \<noteq> Inr [None]"
  by (simp add: fs_no_marker_def eval_defs)

text \<open>
  Claim C9. A reader constructed with a non-empty partons path that does not exist, and with
  a hadrons file that parses, is constructed without error, holds no partons and the
  number of events of the hadrons file, and every event it yields carries the empty string
  as its partons component.
\<close>

theorem missing_partons_file:
  assumes "p \<noteq> []" and "fs p = None" and "parse_event tf fs h = Inr hs"
  shows "\<exists>r. ReaderAscii tf fs h p = Inr r \<and> event_list_partons r = None
            \<and> n_events r = length hs
            \<and> (\<forall>k\<le>length hs. call_reader k r =
                   map (\<lambda>ev. Inr (EventAscii ev EmptyString)) (take k hs))"
proof -
  let ?r = "\<lparr> event_list_hadrons = hs, current_event = 0, n_events = length hs,
               event_list_partons = None \<rparr>"
  have R: "ReaderAscii tf fs h p = Inr ?r"
    using assms by (simp add: ReaderAscii_def path_exists_def)
  have c: "consistent_reader ?r"
    by (simp add: consistent_reader_def)
  have "call_reader k ?r = map (\<lambda>ev. Inr (EventAscii ev EmptyString)) (take k hs)"
    if "k \<le> length hs" for k
    using call_reader_trace [OF c, of k] that
      map_nth_upt_take [of "\<lambda>ev. Inr (EventAscii ev EmptyString)" hs k]
    by (simp add: paired_event_def)
  with R show ?thesis by simp
qed

text \<open>The theorem at a hadrons file of two events and a partons path that names nothing.\<close>

theorem missing_partons_file_witness:
  "''nowhere'' \<noteq> [] \<and> fs_pair ''nowhere'' = None
   \<and> parse_event decimal_literal fs_pair ''h'' = Inr [Some [[1, 2]], Some [[3, 4]]]
   \<and> (\<exists>r. ReaderAscii decimal_literal fs_pair ''h'' ''nowhere'' = Inr r
          \<and> event_list_partons r = None \<and> n_events r = 2
          \<and> call_reader 2 r = [Inr (EventAscii (Some [[1, 2]]) EmptyString),
                               Inr (EventAscii (Some [[3, 4]]) EmptyString)])"
proof -
  have a: "''nowhere'' \<noteq> []" by simp
  have b: "fs_pair ''nowhere'' = None" by (simp add: fs_pair_def)
  have p: "parse_event decimal_literal fs_pair ''h'' = Inr [Some [[1, 2]], Some [[3, 4]]]"
    by (simp add: fs_pair_def eval_defs)
  show ?thesis
    using missing_partons_file [OF a b p] a b p by auto
qed



text \<open>
  Claim C3 says that a reader whose file holds fewer events than the requested maximum
  yields the events of the file and then a falsy sentinel, without raising and without
  terminating the process. \<^verbatim>\<open>ReaderAscii.next_event\<close> does not do that: on a file of one
  event and a request for two, the first event is yielded and the second request ends in
  \<^verbatim>\<open>sys.exit\<close>. The comment above \<^verbatim>\<open>next_event\<close> announces the value \<^verbatim>\<open>False\<close> for
  this case, and the driver tests for it.
\<close>

theorem exhausted_reader_exits:
  "parse_event decimal_literal fs_one_event ''h'' = Inr [Some [[1, 2]]]
   \<and> map_sum id (call_reader 2) (ReaderAscii decimal_literal fs_one_event ''h'' [])
       = Inr [Inr (EventAscii (Some [[1, 2]]) EmptyString), Inl (SystemExit_exhausted 1 1)]"
  by (simp add: fs_one_event_def eval_defs numeral_2_eq_2)

text \<open>
  What \<^verbatim>\<open>parse_event\<close> returns in terms of the blocks of the input, when every particle
  line converts: one event for every block that is not empty, in order, and one event for
  the last block, empty or not. A block without particle lines that is followed by another
  marker line gives no event.
\<close>

lemma event_size_simps:
  "event_size None = None" "event_size (Some ps) = Some (length ps)"
  by (simp_all add: event_size_def)

lemma spec_block_sizes_nonempty: "spec_block_sizes n ls \<noteq> []"
  by (induction ls arbitrary: n) auto

lemma length_spec_block_sizes:
  "length (spec_block_sizes n ls) = Suc (length (filter (\<lambda>l. startswith l ''#'') ls))"
  by (induction ls arbitrary: n) auto

lemma parse_lines_block_sizes:
  assumes "\<forall>l\<in>set ls. \<not> startswith l ''#'' \<longrightarrow> np_array tf (split (rstrip_nl l)) \<noteq> None"
  shows "\<exists>evs. parse_lines tf ls el (Some ps) = Inr (el @ evs)
             \<and> map event_size evs =
                 map Some (filter (\<lambda>n. n \<noteq> 0) (butlast (spec_block_sizes (length ps) ls))
                           @ [last (spec_block_sizes (length ps) ls)])"
  using assms
proof (induction ls arbitrary: el ps)
  case Nil
  then show ?case by (simp add: event_size_simps)
next
  case (Cons l ls)
  show ?case
  proof (cases "startswith l ''#''")
    case True
    let ?el = "if ps \<noteq> [] then el @ [Some ps] else el"
    from Cons.IH [of ?el "[]"] Cons.prems obtain evs where
      e: "parse_lines tf ls ?el (Some []) = Inr (?el @ evs)"
      and s: "map event_size evs =
                 map Some (filter (\<lambda>n. n \<noteq> 0) (butlast (spec_block_sizes 0 ls))
                           @ [last (spec_block_sizes 0 ls)])"
      by auto
    show ?thesis
    proof (cases "ps = []")
      case True
      with \<open>startswith l ''#''\<close> e s show ?thesis
        by (auto simp: truthy_event_def spec_block_sizes_nonempty)
    next
      case False
      with \<open>startswith l ''#''\<close> e s show ?thesis
        by (intro exI [of _ "Some ps # evs"])
           (simp add: truthy_event_def spec_block_sizes_nonempty event_size_simps)
    qed
  next
    case False
    with Cons.prems obtain a where a: "np_array tf (split (rstrip_nl l)) = Some a"
      by auto
    from Cons.IH [of el "ps @ [a]"] Cons.prems False a show ?thesis
      by auto
  qed
qed

text \<open>
  So an input that starts with a marker line, whose particle lines convert, and in which
  no block but the last is empty, gives one event for every marker line, each with the
  particle lines of its block.
\<close>

lemma parse_event_one_event_per_marker:
  assumes "open_file fs f = Inr (m # ls)" and "startswith m ''#''"
    and "\<forall>l\<in>set ls. \<not> startswith l ''#'' \<longrightarrow> np_array tf (split (rstrip_nl l)) \<noteq> None"
    and "\<forall>n\<in>set (butlast (spec_block_sizes 0 ls)). n \<noteq> 0"
  shows "\<exists>evs. parse_event tf fs f = Inr evs
             \<and> length evs = length (filter (\<lambda>l. startswith l ''#'') (m # ls))
             \<and> map event_size evs = map Some (spec_block_sizes 0 ls)"
proof -
  from parse_lines_block_sizes [OF assms(3), of "[]" "[]"] obtain evs where
    e: "parse_lines tf ls [] (Some []) = Inr evs"
    and s: "map event_size evs =
              map Some (filter (\<lambda>n. n \<noteq> 0) (butlast (spec_block_sizes 0 ls))
                        @ [last (spec_block_sizes 0 ls)])"
    by auto
  have "filter (\<lambda>n. n \<noteq> 0) (butlast (spec_block_sizes 0 ls)) = butlast (spec_block_sizes 0 ls)"
    using assms(4) by (simp add: filter_id_conv)
  moreover have "map Some (butlast (spec_block_sizes 0 ls) @ [last (spec_block_sizes 0 ls)])
                 = map Some (spec_block_sizes 0 ls)"
    by (simp add: spec_block_sizes_nonempty)
  ultimately have s': "map event_size evs = map Some (spec_block_sizes 0 ls)"
    using s by simp
  then have "length evs = length (spec_block_sizes 0 ls)"
    by (metis length_map)
  with e s' assms(1,2) show ?thesis
    by (simp add: parse_event_def truthy_event_def length_spec_block_sizes)
qed

text \<open>
  Claim C6 says that an event block without particle lines between two marker lines is
  still yielded and counted. \<^verbatim>\<open>parse_event\<close> drops it: at the second marker the event in
  progress is the empty list, which \<^verbatim>\<open>if event:\<close> takes for false, so nothing is appended.
  On two marker lines followed by one particle line the reader holds one event, not two.
\<close>

theorem empty_event_dropped:
  "parse_event decimal_literal fs_empty_block ''h'' = Inr [Some [[1, 2]]]
   \<and> map_sum id n_events (ReaderAscii decimal_literal fs_empty_block ''h'' []) = Inr 1"
  by (simp add: fs_empty_block_def eval_defs)

text \<open>
  Claim C5 says that an input with \<open>N\<close> marker lines gives \<open>N\<close> events, the event of the
  \<open>i\<close>-th marker holding the particle lines up to the next marker. On an input with
  three marker lines whose second block is empty, \<^verbatim>\<open>parse_event\<close> returns two events, and
  the second one holds the two particle lines of the third block.
\<close>

theorem three_markers_two_events:
  "map_option (\<lambda>ls. length (filter (\<lambda>l. startswith l ''#'') ls)) (fs_three_markers ''h'') = Some 3
   \<and> parse_event decimal_literal fs_three_markers ''h'' = Inr [Some [[1, 2]], Some [[3, 4], [5, 6]]]
   \<and> map_sum id n_events (ReaderAscii decimal_literal fs_three_markers ''h'' []) = Inr 2"
  by (simp add: fs_three_markers_def eval_defs)

section \<open>Properties of the cross-section extraction\<close>

lemma cross_section_lines_none:
  assumes "rt = ''hepmc'' \<longrightarrow> (\<forall>l\<in>set ls. \<not> contains ''GenCrossSection'' l)"
    and "rt = ''dat'' \<longrightarrow> (\<forall>l\<in>set ls. \<not> contains ''sigmaGen'' l)"
  shows "cross_section_lines tf rt ls cs = Inr cs"
  using assms by (induction ls arbitrary: cs) auto

text \<open>
  Claim C8. When the input file can be opened and none of its lines contains the keyword of
  the reader type in use, \<^verbatim>\<open>cross_section\<close> does not return a value: the list of cross
  sections is empty and \<^verbatim>\<open>cross_sections[-1]\<close> raises \<^verbatim>\<open>IndexError\<close>. No default such
  as zero or one is returned. A reader type other than \<^verbatim>\<open>hepmc\<close> and \<^verbatim>\<open>dat\<close> has no
  keyword, and the result is the same for every file.
\<close>

theorem cross_section_absent:
  assumes "open_file fs f = Inr ls"
    and "rt = ''hepmc'' \<longrightarrow> (\<forall>l\<in>set ls. \<not> contains ''GenCrossSection'' l)"
    and "rt = ''dat'' \<longrightarrow> (\<forall>l\<in>set ls. \<not> contains ''sigmaGen'' l)"
  shows "cross_section tf fs rt f = Inl IndexError"
  using assms(1) cross_section_lines_none [OF assms(2) assms(3), of tf "[]"]
  by (simp add: cross_section_def)

text \<open>The theorem at a file of one event without any cross-section line, for both reader types.\<close>

theorem cross_section_absent_witness:
  "open_file fs_one_event ''h'' = Inr [''#\<newline>'', ''1 2\<newline>'']
   \<and> \<not> contains ''GenCrossSection'' ''#\<newline>'' \<and> \<not> contains ''GenCrossSection'' ''1 2\<newline>''
   \<and> \<not> contains ''sigmaGen'' ''#\<newline>'' \<and> \<not> contains ''sigmaGen'' ''1 2\<newline>''
   \<and> cross_section decimal_literal fs_one_event ''dat'' ''h'' = Inl IndexError
   \<and> cross_section decimal_literal fs_one_event ''hepmc'' ''h'' = Inl IndexError"
proof -
  have o: "open_file fs_one_event ''h'' = Inr [''#\<newline>'', ''1 2\<newline>'']"
    by (simp add: fs_one_event_def open_file_def)
  show ?thesis
    using cross_section_absent [OF o, of "''dat''" decimal_literal]
      cross_section_absent [OF o, of "''hepmc''" decimal_literal] o
    by simp
qed

text \<open>
  Claim C2 says that the extraction returns the last reported cross section as a number,
  3.02 for the reported values 3.1, 3.05, 3.02. For the reader type \<^verbatim>\<open>dat\<close> the source
  converts the token and then appends the line instead of the number, so what is returned
  is the text of the last matching line. The \<^verbatim>\<open>hepmc\<close> branch appends the number, divided
  by \<^verbatim>\<open>1e9\<close>.
\<close>

theorem cross_section_dat_returns_line:
  "cross_section decimal_literal fs_dat ''dat'' ''test_out.dat'' = Inr (Line ''# sigmaGen 3.02\<newline>'')
   \<and> cross_section decimal_literal fs_dat ''dat'' ''test_out.dat'' \<noteq> Inr (Number (302 / 100))
   \<and> cross_section decimal_literal fs_hepmc ''hepmc'' ''test_out.hepmc''
       = Inr (Number (302 / 100 / 1000000000))"
  by (simp add: cross_section_def fs_dat_def fs_hepmc_def eval_defs)

section \<open>Properties of the grid enumeration\<close>










section \<open>Properties of the driver\<close>

text \<open>
  The counter over one bin, for the second wire format: after the event loop
  \<^verbatim>\<open>event_id\<close> is its value on entry plus the number of events read, and this sum is what
  \<^verbatim>\<open>write_output_objects\<close> writes for the bin.
\<close>

lemma event_loop_hepmc:
  "event_loop h k d = Inr d' \<Longrightarrow> reader d = Some (HepMC r) \<Longrightarrow>
   event_id d' = event_id d + min k (length (remaining_events r))
   \<and> pt_hat_bin d' = pt_hat_bin d \<and> output_dir_bin d' = output_dir_bin d
   \<and> input_file d' = input_file d \<and> reader_type d' = reader_type d
   \<and> hNevents d' = hNevents d"
proof (induction k arbitrary: d r)
  case 0
  then show ?case by simp
next
  case (Suc k)
  show ?case
  proof (cases "remaining_events r")
    case Nil
    with Suc.prems show ?thesis
      by (auto simp: reader_next_def hepmc_next_event_def)
  next
    case (Cons ev evs)
    let ?d1 = "get_event_info (HepMCEvent ev) (d\<lparr>reader := Some (HepMC (r\<lparr>remaining_events := evs\<rparr>))\<rparr>)"
    from Suc.prems Cons obtain u where u: "analyze_event h (HepMCEvent ev) (user_objects ?d1) = Inr u"
      and rest: "event_loop h k (?d1\<lparr>user_objects := u\<rparr>) = Inr d'"
      by (auto simp: reader_next_def hepmc_next_event_def Let_def split: sum.splits)
    have rd: "reader (?d1\<lparr>user_objects := u\<rparr>) = Some (HepMC (r\<lparr>remaining_events := evs\<rparr>))"
      by (simp add: get_event_info_def)
    show ?thesis
      using Suc.IH [OF rest rd] Cons by (simp add: get_event_info_def)
  qed
qed

lemma run_jetscape_analysis_hepmc_count:
  assumes "reader_type d = ''hepmc''"
    and "open_file fs (input_file d) = Inr ls"
    and "run_jetscape_analysis h tf parse_hepmc fs d = Inr d'"
  shows "persisted_event_count d' (path_join (output_dir_bin d) ''AnalysisResults.root'')
           (pt_hat_bin d + 1)
         = Some (event_id d + min (n_event_max d) (length (parse_hepmc ls)))
       \<and> event_id d' = event_id d + min (n_event_max d) (length (parse_hepmc ls))"
proof -
  let ?r = "\<lparr> remaining_events = parse_hepmc ls \<rparr>"
  from assms obtain d1 d2 where
    i: "initialize_output_objects h (d\<lparr>reader := Some (HepMC ?r)\<rparr>) = Inr d1"
    and l: "event_loop h (n_event_max d1) d1 = Inr d2"
    and w: "write_output_objects tf fs d2 = Inr d'"
    by (auto simp: run_jetscape_analysis_def ReaderHepMC_def split: sum.splits option.splits)
  from i have d1: "reader d1 = Some (HepMC ?r)" "event_id d1 = event_id d"
    "n_event_max d1 = n_event_max d" "pt_hat_bin d1 = pt_hat_bin d"
    "output_dir_bin d1 = output_dir_bin d" "input_file d1 = input_file d"
    "reader_type d1 = reader_type d"
    by (auto simp: initialize_output_objects_def Let_def split: sum.splits)
  from event_loop_hepmc [OF l d1(1)] d1
  have d2: "event_id d2 = event_id d + min (n_event_max d) (length (parse_hepmc ls))"
    "pt_hat_bin d2 = pt_hat_bin d" "output_dir_bin d2 = output_dir_bin d"
    by simp_all
  from w d2 show ?thesis
    by (auto simp: write_output_objects_def persisted_event_count_def Let_def
             split: sum.splits xsec.splits)
qed

text \<open>
  Claim C1 says that the event count written for a bin is the number of events of that bin
  alone. The source sets \<^verbatim>\<open>event_id\<close> to zero in \<^verbatim>\<open>initialize_config\<close> only, increments it
  in \<^verbatim>\<open>get_event_info\<close> for every event of every bin, and writes it into \<^verbatim>\<open>hNevents\<close> at
  the end of each bin. In a run over two bins with two events in the file of bin 0 and one
  event in the file of bin 1, the count written for bin 0 is 2 and the count written for
  bin 1 is 3.
\<close>

theorem event_count_carried_over:
  "map_option hepmc_event_lines (fs_two_bins ''in/1/test_out.hepmc'') = Some [''E 1\<newline>'']
   \<and> map_sum id (\<lambda>d. (persisted_event_count d ''out/0/AnalysisResults.root'' 1,
                       persisted_event_count d ''out/1/AnalysisResults.root'' 2))
       (run_analysis counting_hooks decimal_literal hepmc_event_lines fs_two_bins str_scalar
          config_two_bins ''in'' ''out'' 0)
     = Inr (Some 2, Some 3)"
  by code_simp

end
